theory Spec2Isabelle
  imports Complex_Main
begin

section \<open>Binary64 floating point\<close>

text \<open>
  The prices and percentages of \<^verbatim>\<open>scripts/stock-api.py\<close> are IEEE 754 binary64
  numbers: Python's \<^verbatim>\<open>float\<close> for the fields of the quote, numpy's
  \<^verbatim>\<open>float64\<close> for the closes read out of a pandas series. A finite number is
  kept as the rational it denotes, \<open>Fin 0\<close> being \<^verbatim>\<open>0.0\<close> and \<open>NegZero\<close> being
  \<^verbatim>\<open>-0.0\<close>; \<open>Infinity True\<close> is minus infinity. Every operation computes the exact
  rational result and rounds it to the nearest binary64 number, ties to the even
  mantissa. The type has more finite values than binary64 has (any rational under
  \<open>Fin\<close>); what is proved of all of them holds of the binary64 numbers among them.
\<close>

datatype double = NaN | Infinity bool | NegZero | Fin rat

fun signbit :: "double \<Rightarrow> bool" where
  "signbit NaN = False"
| "signbit (Infinity s) = s"
| "signbit NegZero = True"
| "signbit (Fin q) = (q < 0)"

fun is_zero :: "double \<Rightarrow> bool" where
  "is_zero NegZero = True"
| "is_zero (Fin q) = (q = 0)"
| "is_zero NaN = False"
| "is_zero (Infinity s) = False"

fun val :: "double \<Rightarrow> rat" where
  "val (Fin q) = q"
| "val NegZero = 0"
| "val NaN = 0"
| "val (Infinity s) = 0"

definition signed_zero :: "bool \<Rightarrow> double" where
  "signed_zero s = (if s then NegZero else Fin 0)"

text \<open>\<open>log2n n\<close> is the position of the leading bit of the integer \<open>n \<ge> 1\<close>.\<close>

function log2n :: "int \<Rightarrow> int" where
  "log2n n = (if n < 2 then 0 else log2n (n div 2) + 1)"
  by pat_completeness auto
termination
  by (relation "measure nat") auto

declare log2n.simps [simp del]

definition pow2 :: "int \<Rightarrow> rat" where
  "pow2 e = (if 0 \<le> e then 2 ^ nat e else 1 / 2 ^ nat (- e))"

text \<open>The binary exponent of a positive rational: \<open>pow2 (ilog2 a) \<le> a < pow2 (ilog2 a + 1)\<close>.\<close>

definition ilog2 :: "rat \<Rightarrow> int" where
  "ilog2 a = (if 1 \<le> a then log2n \<lfloor>a\<rfloor>
              else (let k = log2n \<lfloor>1 / a\<rfloor>
                    in if a * pow2 k = 1 then - k else - k - 1))"

text \<open>Rounding a rational to the nearest integer, a tie going to the even one.\<close>

definition rhe :: "rat \<Rightarrow> int" where
  "rhe x = (let f = \<lfloor>x\<rfloor>; d = x - of_int f
            in if d < 1 / 2 then f else if 1 / 2 < d then f + 1
               else if even f then f else f + 1)"

text \<open>
  Rounding an exact result to binary64: 53 bits of mantissa, the exponent of normal numbers
  from \<open>-1022\<close> to \<open>1023\<close>, subnormal numbers below, an overflow giving an infinity. An
  exact zero is given the sign \<^verbatim>\<open>+\<close> here; the operations below choose the sign of
  their exact zeros themselves.
\<close>

definition to_double :: "rat \<Rightarrow> double" where
  "to_double q =
     (if q = 0 then Fin 0
      else (let a = \<bar>q\<bar>; e = max (ilog2 a) (- 1022); u = pow2 (e - 52);
                m = of_int (rhe (a / u)) * u
            in if 1024 \<le> ilog2 m then Infinity (q < 0)
               else if m = 0 then signed_zero (q < 0)
               else Fin (if q < 0 then - m else m)))"

fun fsub :: "double \<Rightarrow> double \<Rightarrow> double" where
  "fsub NaN y = NaN"
| "fsub x NaN = NaN"
| "fsub (Infinity s) (Infinity t) = (if s = t then NaN else Infinity s)"
| "fsub (Infinity s) y = Infinity s"
| "fsub x (Infinity t) = Infinity (\<not> t)"
| "fsub x y = (let d = val x - val y
               in if d = 0 then signed_zero (signbit x \<and> \<not> signbit y) else to_double d)"

fun fmul :: "double \<Rightarrow> double \<Rightarrow> double" where
  "fmul NaN y = NaN"
| "fmul x NaN = NaN"
| "fmul (Infinity s) y = (if is_zero y then NaN else Infinity (s \<noteq> signbit y))"
| "fmul x (Infinity t) = (if is_zero x then NaN else Infinity (signbit x \<noteq> t))"
| "fmul x y = (let p = val x * val y
               in if p = 0 then signed_zero (signbit x \<noteq> signbit y) else to_double p)"

fun fdiv :: "double \<Rightarrow> double \<Rightarrow> double" where
  "fdiv NaN y = NaN"
| "fdiv x NaN = NaN"
| "fdiv (Infinity s) (Infinity t) = NaN"
| "fdiv (Infinity s) y = Infinity (s \<noteq> signbit y)"
| "fdiv x (Infinity t) = signed_zero (signbit x \<noteq> t)"
| "fdiv x y =
     (if is_zero y then (if is_zero x then NaN else Infinity (signbit x \<noteq> signbit y))
      else (let q = val x / val y
            in if q = 0 then signed_zero (signbit x \<noteq> signbit y) else to_double q))"

text \<open>\<^verbatim>\<open>rint\<close>: the nearest integral value, ties to even, the sign kept.\<close>

fun rint :: "double \<Rightarrow> double" where
  "rint (Fin q) = (let n = rhe q in if n = 0 then signed_zero (q < 0) else Fin (of_int n))"
| "rint NegZero = NegZero"
| "rint NaN = NaN"
| "rint (Infinity s) = Infinity s"

declare fsub.simps [simp del] fmul.simps [simp del] fdiv.simps [simp del] rint.simps [simp del]

section \<open>Rounding to two decimals\<close>

text \<open>
  \<^verbatim>\<open>round(x, 2)\<close> on a Python \<^verbatim>\<open>float\<close> (lines 19 and 26): infinities, NaN and
  zeros are returned as they are; otherwise the exact value of \<open>x\<close> is rounded to the
  nearest multiple of \<open>1/100\<close>, ties to even, and that decimal is read back as the nearest
  binary64 number, with the sign of \<open>x\<close>.
\<close>

fun py_round2 :: "double \<Rightarrow> double" where
  "py_round2 (Fin q) =
     (let r = of_int (rhe (q * 100)) / 100
      in if r = 0 then signed_zero (q < 0) else to_double r)"
| "py_round2 NegZero = NegZero"
| "py_round2 NaN = NaN"
| "py_round2 (Infinity s) = Infinity s"

declare py_round2.simps [simp del]

text \<open>
  \<^verbatim>\<open>round(x, 2)\<close> on a numpy \<^verbatim>\<open>float64\<close> (line 43). The closes come out of a
  pandas series by \<^verbatim>\<open>iloc\<close> as numpy scalars, and so does \<^verbatim>\<open>pct_change\<close>; the
  built-in \<^verbatim>\<open>round\<close> hands over to the \<^verbatim>\<open>__round__\<close> of the type, which for
  numpy is \<^verbatim>\<open>ndarray.round\<close>: the number is multiplied by \<^verbatim>\<open>100.0\<close>, rounded to
  an integral value by \<^verbatim>\<open>rint\<close> and divided by \<^verbatim>\<open>100.0\<close>, each step in
  binary64. The two roundings differ on some numbers (lemma \<open>roundings_differ\<close> below) and
  agree on all the numbers of the scenarios.
\<close>

definition np_round2 :: "double \<Rightarrow> double" where
  "np_round2 x = fdiv (rint (fmul x (Fin 100))) (Fin 100)"

section \<open>The provider, faults and responses\<close>

text \<open>
  An exception that leaves the handler is a \<open>fault\<close>; the web framework turns it into a
  response of the 500 class. \<open>ProviderFault\<close> stands for whatever \<^verbatim>\<open>yfinance\<close>
  raises itself.
\<close>

datatype fault = KeyError string | ZeroDivisionError | IndexError | ProviderFault

text \<open>
  The provider as the handler sees it: \<^verbatim>\<open>Ticker(stock).get_info()\<close> gives a dictionary,
  of which the model keeps the price fields, floats as in the data model of the
  specification; \<^verbatim>\<open>Ticker(stock).history(period)["Close"]\<close> gives the ordered closes
  of a period. Either request may raise instead. Each request made to the provider is
  recorded, in order.
\<close>

record provider =
  get_info :: "string \<Rightarrow> fault + (string \<rightharpoonup> double)"
  history :: "string \<Rightarrow> string \<Rightarrow> fault + double list"

datatype call = GetInfo string | History string string

datatype json = JString string | JNumber double

record response =
  status :: nat
  body :: "(string \<times> json) list"

text \<open>
  \<^verbatim>\<open>d[k]\<close> on a dictionary raises on a missing key. \<^verbatim>\<open>s.iloc[i]\<close> on a series
  of \<open>n\<close> elements takes the positions \<open>0\<close> to \<open>n - 1\<close> and, counting from the end,
  \<open>-1\<close> to \<open>-n\<close>; any other position raises.
\<close>

definition getitem :: "(string \<rightharpoonup> 'a) \<Rightarrow> string \<Rightarrow> fault + 'a" where
  "getitem d k = (case d k of None \<Rightarrow> Inl (KeyError k) | Some v \<Rightarrow> Inr v)"

definition iloc :: "'a list \<Rightarrow> int \<Rightarrow> fault + 'a" where
  "iloc xs i =
     (if 0 \<le> i \<and> i < int (length xs) then Inr (xs ! nat i)
      else if i < 0 \<and> - int (length xs) \<le> i then Inr (xs ! nat (int (length xs) + i))
      else Inl IndexError)"

text \<open>\<^verbatim>\<open>a / b\<close> on Python floats raises on a zero divisor; on numpy floats it does not.\<close>

definition py_truediv :: "double \<Rightarrow> double \<Rightarrow> fault + double" where
  "py_truediv a b = (if is_zero b then Inl ZeroDivisionError else Inr (fdiv a b))"

section \<open>The handler\<close>

text \<open>
  The loop of \<^verbatim>\<open>calulcate_stock_changes\<close> over the periods still to do, with the
  dictionary \<^verbatim>\<open>data\<close> built so far and the provider calls made so far.
\<close>

fun changes_loop ::
  "provider \<Rightarrow> string \<Rightarrow> string list \<Rightarrow> (string \<rightharpoonup> double) \<Rightarrow> call list
    \<Rightarrow> (fault + (string \<rightharpoonup> double)) \<times> call list" where
  "changes_loop pr ticker [] data calls = (Inr data, calls)"
| "changes_loop pr ticker (date # dates) data calls =
     (let calls' = calls @ [History ticker date]
      in case history pr ticker date of
           Inl f \<Rightarrow> (Inl f, calls')
         | Inr hist \<Rightarrow>
             (case iloc hist 0 of
                Inl f \<Rightarrow> (Inl f, calls')
              | Inr start_price \<Rightarrow>
                  (case iloc hist (- 1) of
                     Inl f \<Rightarrow> (Inl f, calls')
                   | Inr end_price \<Rightarrow>
                       (let pct_change =
                              fmul (fdiv (fsub end_price start_price) start_price) (Fin 100)
                        in changes_loop pr ticker dates
                             (data(date \<mapsto> np_round2 pct_change)) calls'))))"

definition calulcate_stock_changes ::
  "provider \<Rightarrow> string \<Rightarrow> call list \<Rightarrow> (fault + (string \<rightharpoonup> double)) \<times> call list" where
  "calulcate_stock_changes pr ticker calls =
     changes_loop pr ticker [''1mo'', ''6mo'', ''1y''] Map.empty calls"

definition invalid_ticker :: response where
  "invalid_ticker = \<lparr>status = 400, body = [(''error'', JString ''Invalid ticker!'')]\<rparr>"

definition stock_api :: "provider \<Rightarrow> string \<Rightarrow> (fault + response) \<times> call list" where
  "stock_api pr stock =
     (let calls = [GetInfo stock]
      in case get_info pr stock of
           Inl f \<Rightarrow> (Inl f, calls)
         | Inr info \<Rightarrow>
             if info ''regularMarketPrice'' = None then (Inr invalid_ticker, calls)
             else
               (case getitem info ''previousClose'' of
                  Inl f \<Rightarrow> (Inl f, calls)
                | Inr previous_close \<Rightarrow>
               (case getitem info ''regularMarketPrice'' of
                  Inl f \<Rightarrow> (Inl f, calls)
                | Inr current_price \<Rightarrow>
               (case py_truediv (fsub current_price previous_close) previous_close of
                  Inl f \<Rightarrow> (Inl f, calls)
                | Inr change \<Rightarrow>
               (let percent_change = py_round2 (fmul change (Fin 100))
                in case calulcate_stock_changes pr stock calls of
                     (Inl f, calls') \<Rightarrow> (Inl f, calls')
                   | (Inr historical_percents, calls') \<Rightarrow>
               (case getitem info ''regularMarketPrice'' of
                  Inl f \<Rightarrow> (Inl f, calls')
                | Inr price \<Rightarrow>
               (case getitem historical_percents ''1mo'' of
                  Inl f \<Rightarrow> (Inl f, calls')
                | Inr p1mo \<Rightarrow>
               (case getitem historical_percents ''6mo'' of
                  Inl f \<Rightarrow> (Inl f, calls')
                | Inr p6mo \<Rightarrow>
               (case getitem historical_percents ''1y'' of
                  Inl f \<Rightarrow> (Inl f, calls')
                | Inr p1y \<Rightarrow>
                    (Inr \<lparr>status = 200,
                          body = [(''stock'', JString stock),
                                  (''price'', JNumber (py_round2 price)),
                                  (''percent'', JNumber percent_change),
                                  (''percent_1mo'', JNumber p1mo),
                                  (''percent_6mo'', JNumber p6mo),
                                  (''percent_1y'', JNumber p1y)]\<rparr>, calls'))))))))))"


section \<open>Notation for the statements and stub providers\<close>

text \<open>
  The percentages of the source, written once. \<open>raw_percent e s\<close> is
  \<^verbatim>\<open>((e - s) / s) * 100\<close> in binary64, before any rounding to two decimals;
  \<open>quote_percent\<close> is the change of the quote against the previous close (line 19) and
  \<open>window_percent\<close> the change over a window from its first to its last close (lines 40
  to 43).
\<close>

abbreviation raw_percent :: "double \<Rightarrow> double \<Rightarrow> double" where
  "raw_percent e s \<equiv> fmul (fdiv (fsub e s) s) (Fin 100)"

abbreviation quote_percent :: "double \<Rightarrow> double \<Rightarrow> double" where
  "quote_percent c p \<equiv> py_round2 (raw_percent c p)"

abbreviation window_percent :: "double list \<Rightarrow> double" where
  "window_percent h \<equiv> np_round2 (raw_percent (last h) (hd h))"

abbreviation success ::
  "string \<Rightarrow> double \<Rightarrow> double \<Rightarrow> double list \<Rightarrow> double list \<Rightarrow> double list \<Rightarrow> response" where
  "success stock c p h1 h6 hy \<equiv>
     \<lparr>status = 200,
      body = [(''stock'', JString stock),
              (''price'', JNumber (py_round2 c)),
              (''percent'', JNumber (quote_percent c p)),
              (''percent_1mo'', JNumber (window_percent h1)),
              (''percent_6mo'', JNumber (window_percent h6)),
              (''percent_1y'', JNumber (window_percent hy))]\<rparr>"

text \<open>
  \<open>nearest_even x n\<close>: the integer \<open>n\<close> is nearest to \<open>x\<close>, and is even when \<open>x\<close> lies
  half way between two integers.
\<close>

definition nearest_even :: "rat \<Rightarrow> int \<Rightarrow> bool" where
  "nearest_even x n = (\<bar>x - of_int n\<bar> \<le> 1 / 2 \<and> (\<bar>x - of_int n\<bar> = 1 / 2 \<longrightarrow> even n))"

text \<open>
  \<open>hundredth q n\<close>: the binary64 number nearest to \<open>n\<close> hundredths, a zero taking the
  sign of \<open>q\<close>. With \<open>nearest_even (q * 100) n\<close> it is \<open>q\<close> rounded to two decimals by
  the round-half-to-even rule, as a binary64 number.
\<close>

definition hundredth :: "rat \<Rightarrow> int \<Rightarrow> double" where
  "hundredth q n = (if n = 0 then signed_zero (q < 0) else to_double (of_int n / 100))"

text \<open>
  A stub provider answers every ticker with the same quote and, for each period, the same
  closes. The quotes and closes below are the ones of the scenarios of the specification.
\<close>

definition stub_provider :: "(string \<rightharpoonup> double) \<Rightarrow> (string \<Rightarrow> double list) \<Rightarrow> provider" where
  "stub_provider info closes = \<lparr>get_info = (\<lambda>t. Inr info), history = (\<lambda>t d. Inr (closes d))\<rparr>"

definition quote :: "rat \<Rightarrow> rat \<Rightarrow> (string \<rightharpoonup> double)" where
  "quote p c = [''previousClose'' \<mapsto> Fin p, ''regularMarketPrice'' \<mapsto> Fin c]"

definition closes3 :: "double list \<Rightarrow> double list \<Rightarrow> double list \<Rightarrow> string \<Rightarrow> double list" where
  "closes3 h1 h6 hy d =
     (if d = ''1mo'' then h1 else if d = ''6mo'' then h6 else if d = ''1y'' then hy else [])"

definition aapl_closes :: "string \<Rightarrow> double list" where
  "aapl_closes = closes3 [Fin 140, Fin 146, Fin 153] [Fin 120, Fin 131, Fin 153]
                   [Fin 100, Fin 90, Fin 153]"


definition gap_closes :: "string \<Rightarrow> double list" where
  "gap_closes = closes3 [Fin 140, Fin 153] [] [Fin 100, Fin 153]"

text \<open>A provider that knows one ticker only and fails on every other request.\<close>

definition aapl_only :: provider where
  "aapl_only =
     \<lparr>get_info = (\<lambda>t. if t = ''AAPL'' then Inr (quote 150 153) else Inl ProviderFault),
      history = (\<lambda>t d. if t = ''AAPL'' then Inr (aapl_closes d) else Inl ProviderFault)\<rparr>"

definition price_only :: "string \<rightharpoonup> double" where
  "price_only = [''regularMarketPrice'' \<mapsto> Fin 153]"


text \<open>A quote whose price 153.128 has more than two decimals.\<close>

definition fine_quote :: "string \<rightharpoonup> double" where
  "fine_quote = [''previousClose'' \<mapsto> Fin 150,
                 ''regularMarketPrice'' \<mapsto> Fin (2693856264609333 / 17592186044416)]"

section \<open>Series access and the loop over the periods\<close>

lemma iloc_empty: "iloc [] i = Inl IndexError"
  by (simp add: iloc_def)

lemma iloc_first: "xs \<noteq> [] \<Longrightarrow> iloc xs 0 = Inr (hd xs)"
  by (cases xs) (simp_all add: iloc_def)

lemma iloc_last: "xs \<noteq> [] \<Longrightarrow> iloc xs (- 1) = Inr (last xs)"
  by (cases xs rule: rev_cases) (simp_all add: iloc_def Let_def nth_append)

text \<open>One round of the loop: the period's history is fetched, then both ends are read.\<close>

lemma changes_loop_step:
  "changes_loop pr t (date # dates) data calls =
     (case history pr t date of
        Inl f \<Rightarrow> (Inl f, calls @ [History t date])
      | Inr h \<Rightarrow>
          if h = [] then (Inl IndexError, calls @ [History t date])
          else changes_loop pr t dates (data(date \<mapsto> window_percent h))
                 (calls @ [History t date]))"
  by (simp add: Let_def iloc_empty iloc_first iloc_last split: sum.split)

declare changes_loop.simps(2) [simp del]

lemma changes_loop_cong:
  "(\<And>d. d \<in> set ds \<Longrightarrow> history pr t d = history pr' t d) \<Longrightarrow>
   changes_loop pr t ds data calls = changes_loop pr' t ds data calls"
proof (induction ds arbitrary: data calls)
  case Nil
  show ?case by simp
next
  case (Cons d ds)
  have same: "history pr t d = history pr' t d"
    using Cons.prems by simp
  have rest: "\<And>data calls. changes_loop pr t ds data calls = changes_loop pr' t ds data calls"
    using Cons by simp
  show ?case
    unfolding changes_loop_step same by (simp add: rest split: sum.split)
qed

lemma changes_ok:
  assumes "history pr t ''1mo'' = Inr h1" and "h1 \<noteq> []"
    and "history pr t ''6mo'' = Inr h6" and "h6 \<noteq> []"
    and "history pr t ''1y'' = Inr hy" and "hy \<noteq> []"
  shows "calulcate_stock_changes pr t calls =
           (Inr [''1mo'' \<mapsto> window_percent h1, ''6mo'' \<mapsto> window_percent h6,
                 ''1y'' \<mapsto> window_percent hy],
            calls @ [History t ''1mo'', History t ''6mo'', History t ''1y''])"
  using assms by (simp add: calulcate_stock_changes_def changes_loop_step)

lemma changes_Inr:
  assumes "calulcate_stock_changes pr t calls = (Inr d, calls')"
  shows "\<exists>h1 h6 hy. history pr t ''1mo'' = Inr h1 \<and> h1 \<noteq> [] \<and>
           history pr t ''6mo'' = Inr h6 \<and> h6 \<noteq> [] \<and>
           history pr t ''1y'' = Inr hy \<and> hy \<noteq> []"
  using assms
  by (auto simp add: calulcate_stock_changes_def changes_loop_step
        split: sum.splits if_splits)

lemma changes_empty:
  assumes "d \<in> {''1mo'', ''6mo'', ''1y''}" and "history pr t d = Inr []"
  shows "\<exists>f calls'. calulcate_stock_changes pr t calls = (Inl f, calls')"
  using assms
  by (auto simp add: calulcate_stock_changes_def changes_loop_step
        split: sum.splits if_splits)

text \<open>When every period answers with a series, the only fault of the loop is the
  \<^verbatim>\<open>IndexError\<close> of an empty one.\<close>

lemma changes_empty_IndexError:
  assumes "d \<in> {''1mo'', ''6mo'', ''1y''}" and "history pr t d = Inr []"
    and "history pr t ''1mo'' = Inr h1" and "history pr t ''6mo'' = Inr h6"
    and "history pr t ''1y'' = Inr hy"
  shows "fst (calulcate_stock_changes pr t calls) = Inl IndexError"
  using assms
  by (auto simp add: calulcate_stock_changes_def changes_loop_step)

section \<open>The handler, case by case\<close>

lemma stock_api_ok:
  assumes "get_info pr stock = Inr info"
    and "info ''previousClose'' = Some p" and "info ''regularMarketPrice'' = Some c"
    and "\<not> is_zero p"
    and "history pr stock ''1mo'' = Inr h1" and "h1 \<noteq> []"
    and "history pr stock ''6mo'' = Inr h6" and "h6 \<noteq> []"
    and "history pr stock ''1y'' = Inr hy" and "hy \<noteq> []"
  shows "stock_api pr stock =
           (Inr (success stock c p h1 h6 hy),
            [GetInfo stock, History stock ''1mo'', History stock ''6mo'',
             History stock ''1y''])"
  using assms(1-4) changes_ok [OF assms(5-10), of "[GetInfo stock]"]
  by (simp add: stock_api_def getitem_def py_truediv_def)

lemma stock_api_Inr:
  assumes "fst (stock_api pr stock) = Inr r"
  shows "(r = invalid_ticker \<and>
          (\<exists>info. get_info pr stock = Inr info \<and> info ''regularMarketPrice'' = None)) \<or>
         (\<exists>info p c h1 h6 hy.
            get_info pr stock = Inr info \<and>
            info ''previousClose'' = Some p \<and> info ''regularMarketPrice'' = Some c \<and>
            \<not> is_zero p \<and>
            history pr stock ''1mo'' = Inr h1 \<and> h1 \<noteq> [] \<and>
            history pr stock ''6mo'' = Inr h6 \<and> h6 \<noteq> [] \<and>
            history pr stock ''1y'' = Inr hy \<and> hy \<noteq> [] \<and>
            r = success stock c p h1 h6 hy)"
proof (cases "get_info pr stock")
  case (Inl f)
  with assms show ?thesis by (simp add: stock_api_def)
next
  case (Inr info)
  show ?thesis
  proof (cases "info ''regularMarketPrice''")
    case None
    with assms Inr show ?thesis by (simp add: stock_api_def)
  next
    case (Some c)
    show ?thesis
    proof (cases "info ''previousClose''")
      case None
      with assms Inr Some show ?thesis by (simp add: stock_api_def getitem_def)
    next
      case p: (Some p)
      show ?thesis
      proof (cases "is_zero p")
        case True
        with assms Inr Some p show ?thesis
          by (simp add: stock_api_def getitem_def py_truediv_def)
      next
        case False
        obtain res calls' where
          ch: "calulcate_stock_changes pr stock [GetInfo stock] = (res, calls')"
          by (cases "calulcate_stock_changes pr stock [GetInfo stock]")
        show ?thesis
        proof (cases res)
          case (Inl f)
          with assms Inr Some p False ch show ?thesis
            by (simp add: stock_api_def getitem_def py_truediv_def)
        next
          case d: (Inr d)
          from changes_Inr [OF ch [unfolded d]] obtain h1 h6 hy where
            h: "history pr stock ''1mo'' = Inr h1" "h1 \<noteq> []"
               "history pr stock ''6mo'' = Inr h6" "h6 \<noteq> []"
               "history pr stock ''1y'' = Inr hy" "hy \<noteq> []"
            by blast
          from stock_api_ok [OF Inr p Some False h] assms
          have "r = success stock c p h1 h6 hy" by simp
          with Inr p Some False h show ?thesis by blast
        qed
      qed
    qed
  qed
qed

text \<open>A response other than the error is the success record of the quote and the closes
  that the provider gave.\<close>

lemma stock_api_success:
  assumes "fst (stock_api pr stock) = Inr r" and "r \<noteq> invalid_ticker"
  obtains info p c h1 h6 hy where
    "get_info pr stock = Inr info"
    "info ''previousClose'' = Some p" "info ''regularMarketPrice'' = Some c"
    "history pr stock ''1mo'' = Inr h1" "history pr stock ''6mo'' = Inr h6"
    "history pr stock ''1y'' = Inr hy"
    "r = success stock c p h1 h6 hy"
  using stock_api_Inr [OF assms(1)] assms(2) by blast

lemma stock_api_fault_before_history:
  assumes "get_info pr stock = Inr info" and "info ''regularMarketPrice'' = Some c"
    and "info ''previousClose'' = None \<or> (\<exists>p. info ''previousClose'' = Some p \<and> is_zero p)"
  shows "\<exists>f. stock_api pr stock = (Inl f, [GetInfo stock])"
  using assms by (auto simp add: stock_api_def getitem_def py_truediv_def)

lemma stock_api_empty_series:
  assumes "get_info pr stock = Inr info" and "info ''regularMarketPrice'' = Some c"
    and "d \<in> {''1mo'', ''6mo'', ''1y''}" and "history pr stock d = Inr []"
  shows "\<exists>f. fst (stock_api pr stock) = Inl f"
proof (cases "info ''previousClose'' = None \<or> (\<exists>p. info ''previousClose'' = Some p \<and> is_zero p)")
  case True
  from stock_api_fault_before_history [OF assms(1,2) True] show ?thesis by auto
next
  case False
  then obtain p where p: "info ''previousClose'' = Some p" "\<not> is_zero p" by auto
  from changes_empty [OF assms(3,4)] obtain f calls' where
    "calulcate_stock_changes pr stock [GetInfo stock] = (Inl f, calls')" by blast
  with assms(1,2) p show ?thesis
    by (simp add: stock_api_def getitem_def py_truediv_def)
qed

lemma stock_api_empty_series_IndexError:
  assumes "get_info pr stock = Inr info" and "info ''regularMarketPrice'' = Some c"
    and "info ''previousClose'' = Some p" and "\<not> is_zero p"
    and "d \<in> {''1mo'', ''6mo'', ''1y''}" and "history pr stock d = Inr []"
    and "history pr stock ''1mo'' = Inr h1" and "history pr stock ''6mo'' = Inr h6"
    and "history pr stock ''1y'' = Inr hy"
  shows "fst (stock_api pr stock) = Inl IndexError"
proof -
  obtain res calls' where
    ch: "calulcate_stock_changes pr stock [GetInfo stock] = (res, calls')"
    by (cases "calulcate_stock_changes pr stock [GetInfo stock]")
  with changes_empty_IndexError [OF assms(5-9), of "[GetInfo stock]"]
  have "res = Inl IndexError" by simp
  with ch assms(1-4) show ?thesis
    by (simp add: stock_api_def getitem_def py_truediv_def)
qed

section \<open>Rounding to the nearest, ties to even\<close>

lemma rhe_nearest_even: "nearest_even x (rhe x)"
proof -
  define f where "f = \<lfloor>x\<rfloor>"
  define d where "d = x - of_int f"
  have bounds: "0 \<le> d" "d < 1"
    unfolding d_def f_def by linarith+
  have r: "rhe x = (if d < 1 / 2 then f else if 1 / 2 < d then f + 1
                    else if even f then f else f + 1)"
    by (simp add: rhe_def Let_def f_def d_def)
  have down: "x - of_int f = d" and up: "x - of_int (f + 1) = d - 1"
    by (simp_all add: d_def)
  consider "d < 1 / 2" | "1 / 2 < d" | "d = 1 / 2" "even f" | "d = 1 / 2" "odd f"
    by fastforce
  then show ?thesis
  proof cases
    case 1
    then have "rhe x = f" by (simp add: r)
    with 1 bounds show ?thesis
      unfolding nearest_even_def by (simp only: down) auto
  next
    case 2
    then have "rhe x = f + 1" by (simp add: r)
    with 2 bounds show ?thesis
      unfolding nearest_even_def by (simp only: up) auto
  next
    case 3
    then have "rhe x = f" by (simp add: r)
    with 3 show ?thesis
      unfolding nearest_even_def by (simp only: down) auto
  next
    case 4
    then have "rhe x = f + 1" by (simp add: r)
    with 4 show ?thesis
      unfolding nearest_even_def by (simp only: up) auto
  qed
qed


section \<open>The numbers of the scenarios, computed\<close>

lemma percent_110_100: "quote_percent (Fin 110) (Fin 100) = Fin 10"
  by code_simp



lemma aapl_price: "py_round2 (Fin 153) = Fin 153"
  by code_simp

lemma aapl_percent: "quote_percent (Fin 153) (Fin 150) = Fin 2"
  by code_simp

lemma aapl_percent_1mo:
  "np_round2 (fmul (fdiv (fsub (Fin 153) (Fin 140)) (Fin 140)) (Fin 100)) =
     to_double (929 / 100)"
  by code_simp

lemma aapl_percent_6mo:
  "np_round2 (fmul (fdiv (fsub (Fin 153) (Fin 120)) (Fin 120)) (Fin 100)) = Fin (55 / 2)"
  by code_simp

lemma aapl_percent_1y:
  "np_round2 (fmul (fdiv (fsub (Fin 153) (Fin 100)) (Fin 100)) (Fin 100)) = Fin 53"
  by code_simp





text \<open>
  Python's and numpy's rounding part on 2.675, the binary64 number just below 2675/1000:
  the first rounds its exact value, the second the product with 100, which is 267.5.
\<close>

lemma roundings_differ:
  "py_round2 (to_double (2675 / 1000)) = to_double (267 / 100) \<and>
   np_round2 (to_double (2675 / 1000)) = to_double (268 / 100)"
  by code_simp


lemma not_zero_150: "\<not> is_zero (Fin 150)"
  by simp

text \<open>The round-half-to-even rule names one integer.\<close>

lemma nearest_even_unique:
  assumes "nearest_even x n" and "nearest_even x m"
  shows "n = m"
proof (rule ccontr)
  assume ne: "n \<noteq> m"
  have n: "\<bar>x - of_int n\<bar> \<le> 1 / 2" and m: "\<bar>x - of_int m\<bar> \<le> 1 / 2"
    using assms by (simp_all add: nearest_even_def)
  then have "\<bar>(of_int n :: rat) - of_int m\<bar> \<le> 1"
    by linarith
  then have "\<bar>(of_int (n - m) :: rat)\<bar> \<le> 1"
    by simp
  then have "\<bar>n - m\<bar> \<le> 1"
    by (metis of_int_abs of_int_le_1_iff)
  with ne consider "n = m + 1" | "m = n + 1"
    by linarith
  then show False
  proof cases
    case 1
    with n m have "\<bar>x - of_int n\<bar> = 1 / 2" and "\<bar>x - of_int m\<bar> = 1 / 2"
      by auto
    with assms have "even n" and "even m"
      by (simp_all add: nearest_even_def)
    with 1 show False by simp
  next
    case 2
    with n m have "\<bar>x - of_int n\<bar> = 1 / 2" and "\<bar>x - of_int m\<bar> = 1 / 2"
      by auto
    with assms have "even n" and "even m"
      by (simp_all add: nearest_even_def)
    with 2 show False by simp
  qed
qed

text \<open>
  What the two roundings compute, in terms of the rule: Python's rounds the value itself,
  numpy's the binary64 product of the value and 100; numbers that are not finite pass
  through.
\<close>

lemma py_round2_rule: "py_round2 (Fin q) = hundredth q (rhe (q * 100))"
  by (simp add: py_round2.simps hundredth_def Let_def)

lemma py_round2_other: "\<forall>q. x \<noteq> Fin q \<Longrightarrow> py_round2 x = x"
  by (cases x) (simp_all add: py_round2.simps)



section \<open>More numbers, computed\<close>

lemma raw_110_100: "fmul (fdiv (fsub (Fin 110) (Fin 100)) (Fin 100)) (Fin 100) = Fin 10"
  by code_simp



lemma hundredth_1000: "hundredth q 1000 = Fin 10"
  by code_simp

lemma hundredth_15313: "hundredth q 15313 = to_double (15313 / 100)"
  by (simp add: hundredth_def)


lemma skew_scaled: "fmul (Fin (3011782250804019 / 1125899906842624)) (Fin 100) = Fin (535 / 2)"
  by code_simp


lemma skew_python:
  "py_round2 (Fin (3011782250804019 / 1125899906842624)) = to_double (267 / 100)"
  by code_simp







text \<open>
  The quote from 1000.0 to 1002.75: the raw percentage is the binary64 number just below
  0.275, and the price 153.128 as a binary64 number.
\<close>

lemma raw_1000:
  "fmul (fdiv (fsub (Fin (100275 / 100)) (Fin 1000)) (Fin 1000)) (Fin 100) =
     Fin (4953959590107545 / 18014398509481984)"
  by code_simp

lemma not_zero_1000: "\<not> is_zero (Fin 1000)"
  by simp

lemma not_zero_100: "\<not> is_zero (Fin 100)"
  by simp

section \<open>The claims\<close>

text \<open>
  C1. When the current-info response of the provider has no \<^verbatim>\<open>regularMarketPrice\<close>,
  the handler answers with status 400 and the body \<^verbatim>\<open>{"error": "Invalid ticker!"}\<close>,
  and the only request made to the provider is the one for the current info: no history is
  fetched for any period.
\<close>

theorem invalid_ticker_no_history:
  assumes "get_info pr stock = Inr info" and "info ''regularMarketPrice'' = None"
  shows "stock_api pr stock =
           (Inr \<lparr>status = 400, body = [(''error'', JString ''Invalid ticker!'')]\<rparr>,
            [GetInfo stock])"
  using assms by (simp add: stock_api_def invalid_ticker_def)

theorem invalid_ticker_no_history_witness:
  "get_info (stub_provider Map.empty aapl_closes) ''ZZZZ'' = Inr Map.empty \<and>
   stock_api (stub_provider Map.empty aapl_closes) ''ZZZZ'' =
     (Inr \<lparr>status = 400, body = [(''error'', JString ''Invalid ticker!'')]\<rparr>,
      [GetInfo ''ZZZZ''])"
proof -
  have g: "get_info (stub_provider Map.empty aapl_closes) ''ZZZZ'' = Inr Map.empty"
    by (simp add: stub_provider_def)
  have n: "(Map.empty :: string \<rightharpoonup> double) ''regularMarketPrice'' = None"
    by simp
  from g invalid_ticker_no_history [OF g n] show ?thesis by simp
qed

text \<open>
  C2. In a response built from a quote with previous close \<open>p\<close> and current price \<open>c\<close>,
  \<open>p\<close> is not zero and the field \<^verbatim>\<open>percent\<close> is \<^verbatim>\<open>(c - p) / p * 100\<close>, evaluated in
  binary64, rounded to two decimals: when that raw percentage is a finite number \<open>q\<close>, the
  field is the binary64 number nearest to \<open>n / 100\<close>, where \<open>n\<close> is the integer nearest to
  \<open>q * 100\<close>, ties to even; a raw percentage that is not finite is passed on as it is. For
  \<open>p = 100\<close> and \<open>c = 110\<close> the field is \<^verbatim>\<open>10.0\<close>.
\<close>

theorem percent_field:
  assumes "fst (stock_api pr stock) = Inr r"
    and "get_info pr stock = Inr info"
    and "info ''previousClose'' = Some p" and "info ''regularMarketPrice'' = Some c"
  shows "\<not> is_zero p \<and>
         (\<forall>q. raw_percent c p = Fin q \<longrightarrow>
            (\<exists>n. nearest_even (q * 100) n \<and>
               map_of (body r) ''percent'' = Some (JNumber (hundredth q n)))) \<and>
         ((\<forall>q. raw_percent c p \<noteq> Fin q) \<longrightarrow>
            map_of (body r) ''percent'' = Some (JNumber (raw_percent c p))) \<and>
         (p = Fin 100 \<and> c = Fin 110 \<longrightarrow>
            map_of (body r) ''percent'' = Some (JNumber (Fin 10)))"
proof -
  from stock_api_Inr [OF assms(1)] assms(2-4)
  obtain h1 h6 hy where z: "\<not> is_zero p" and r: "r = success stock c p h1 h6 hy"
    by auto
  have f: "map_of (body r) ''percent'' = Some (JNumber (py_round2 (raw_percent c p)))"
    by (simp add: r)
  have finite: "\<forall>q. raw_percent c p = Fin q \<longrightarrow>
            (\<exists>n. nearest_even (q * 100) n \<and>
               map_of (body r) ''percent'' = Some (JNumber (hundredth q n)))"
  proof (intro allI impI)
    fix q
    assume "raw_percent c p = Fin q"
    with f have "map_of (body r) ''percent'' = Some (JNumber (hundredth q (rhe (q * 100))))"
      by (simp add: py_round2_rule)
    with rhe_nearest_even [of "q * 100"]
    show "\<exists>n. nearest_even (q * 100) n \<and>
            map_of (body r) ''percent'' = Some (JNumber (hundredth q n))"
      by (intro exI [of _ "rhe (q * 100)"] conjI)
  qed
  have other: "(\<forall>q. raw_percent c p \<noteq> Fin q) \<longrightarrow>
            map_of (body r) ''percent'' = Some (JNumber (raw_percent c p))"
    using f by (simp add: py_round2_other)
  have example: "p = Fin 100 \<and> c = Fin 110 \<longrightarrow>
            map_of (body r) ''percent'' = Some (JNumber (Fin 10))"
    using f percent_110_100 by simp
  from z finite other example show ?thesis
    by (intro conjI)
qed

theorem percent_field_witness:
  "(\<exists>r. fst (stock_api (stub_provider (quote 100 110) aapl_closes) ''AAPL'') = Inr r \<and>
        map_of (body r) ''percent'' = Some (JNumber (Fin 10))) \<and>
   (\<exists>r. fst (stock_api (stub_provider (quote 1000 (100275 / 100)) aapl_closes) ''AAPL'') = Inr r \<and>
        map_of (body r) ''percent'' = Some (JNumber (to_double (27 / 100))))"
proof -
  have h: "\<And>i. history (stub_provider i aapl_closes) ''AAPL'' ''1mo'' =
             Inr [Fin 140, Fin 146, Fin 153]"
    "\<And>i. history (stub_provider i aapl_closes) ''AAPL'' ''6mo'' =
             Inr [Fin 120, Fin 131, Fin 153]"
    "\<And>i. history (stub_provider i aapl_closes) ''AAPL'' ''1y'' =
             Inr [Fin 100, Fin 90, Fin 153]"
    by (simp_all add: stub_provider_def aapl_closes_def closes3_def)
  have first: "\<exists>r. fst (stock_api (stub_provider (quote 100 110) aapl_closes) ''AAPL'') = Inr r \<and>
        map_of (body r) ''percent'' = Some (JNumber (Fin 10))"
  proof -
    let ?pr = "stub_provider (quote 100 110) aapl_closes"
    have g: "get_info ?pr ''AAPL'' = Inr (quote 100 110)"
      by (simp add: stub_provider_def)
    have p: "quote 100 110 ''previousClose'' = Some (Fin 100)"
      and c: "quote 100 110 ''regularMarketPrice'' = Some (Fin 110)"
      by (simp_all add: quote_def)
    from stock_api_ok [OF g p c not_zero_100 h(1) _ h(2) _ h(3)]
    obtain r where r: "fst (stock_api ?pr ''AAPL'') = Inr r" by simp
    note t = percent_field [OF r g p c]
    from t [THEN conjunct2, THEN conjunct1, THEN spec, THEN mp, OF raw_110_100]
    obtain n where n: "nearest_even (10 * 100) n"
      and f: "map_of (body r) ''percent'' = Some (JNumber (hundredth 10 n))"
      by (elim exE conjE)
    have "nearest_even (10 * 100) 1000"
      by (simp add: nearest_even_def)
    with n have "n = 1000"
      by (rule nearest_even_unique)
    with f have "map_of (body r) ''percent'' = Some (JNumber (Fin 10))"
      by (simp add: hundredth_1000)
    with r show ?thesis
      by (intro exI [of _ r] conjI)
  qed
  have second: "\<exists>r. fst (stock_api (stub_provider (quote 1000 (100275 / 100)) aapl_closes)
                         ''AAPL'') = Inr r \<and>
        map_of (body r) ''percent'' = Some (JNumber (to_double (27 / 100)))"
  proof -
    let ?pr = "stub_provider (quote 1000 (100275 / 100)) aapl_closes"
    have g: "get_info ?pr ''AAPL'' = Inr (quote 1000 (100275 / 100))"
      by (simp add: stub_provider_def)
    have p: "quote 1000 (100275 / 100) ''previousClose'' = Some (Fin 1000)"
      and c: "quote 1000 (100275 / 100) ''regularMarketPrice'' = Some (Fin (100275 / 100))"
      by (simp_all add: quote_def)
    from stock_api_ok [OF g p c not_zero_1000 h(1) _ h(2) _ h(3)]
    obtain r where r: "fst (stock_api ?pr ''AAPL'') = Inr r" by simp
    note t = percent_field [OF r g p c]
    from t [THEN conjunct2, THEN conjunct1, THEN spec, THEN mp, OF raw_1000]
    obtain n where n: "nearest_even (4953959590107545 / 18014398509481984 * 100) n"
      and f: "map_of (body r) ''percent'' =
                Some (JNumber (hundredth (4953959590107545 / 18014398509481984) n))"
      by (elim exE conjE)
    have "nearest_even (4953959590107545 / 18014398509481984 * 100) 27"
      by (simp add: nearest_even_def)
    with n have "n = 27"
      by (rule nearest_even_unique)
    with f have "map_of (body r) ''percent'' = Some (JNumber (to_double (27 / 100)))"
      by (simp add: hundredth_def)
    with r show ?thesis
      by (intro exI [of _ r] conjI)
  qed
  from first second show ?thesis
    by (intro conjI)
qed




text \<open>
  C4. A response other than the error has status 200 and exactly the fields
  \<^verbatim>\<open>stock\<close>, \<^verbatim>\<open>price\<close>, \<^verbatim>\<open>percent\<close>, \<^verbatim>\<open>percent_1mo\<close>,
  \<^verbatim>\<open>percent_6mo\<close> and \<^verbatim>\<open>percent_1y\<close>, each once. Its \<^verbatim>\<open>price\<close> is the
  \<^verbatim>\<open>regularMarketPrice\<close> of the provider rounded to two decimals: for a finite price
  \<open>q\<close> it is the binary64 number nearest to \<open>n / 100\<close>, where \<open>n\<close> is the integer nearest
  to \<open>q * 100\<close>, ties to even; a price that is not finite is passed on as it is.
\<close>

theorem success_fields:
  assumes "fst (stock_api pr stock) = Inr r" and "r \<noteq> invalid_ticker"
  shows "status r = 200 \<and>
         map fst (body r) =
           [''stock'', ''price'', ''percent'', ''percent_1mo'', ''percent_6mo'',
            ''percent_1y''] \<and>
         (\<exists>info c. get_info pr stock = Inr info \<and>
            info ''regularMarketPrice'' = Some c \<and>
            (\<forall>q. c = Fin q \<longrightarrow>
               (\<exists>n. nearest_even (q * 100) n \<and>
                  map_of (body r) ''price'' = Some (JNumber (hundredth q n)))) \<and>
            ((\<forall>q. c \<noteq> Fin q) \<longrightarrow> map_of (body r) ''price'' = Some (JNumber c)))"
proof -
  from stock_api_Inr [OF assms(1)] assms(2)
  obtain info c p h1 h6 hy where
    i: "get_info pr stock = Inr info" "info ''regularMarketPrice'' = Some c"
    and r: "r = success stock c p h1 h6 hy"
    by auto
  have s: "status r = 200"
    and k: "map fst (body r) =
           [''stock'', ''price'', ''percent'', ''percent_1mo'', ''percent_6mo'',
            ''percent_1y'']"
    and f: "map_of (body r) ''price'' = Some (JNumber (py_round2 c))"
    by (simp_all add: r)
  have finite: "\<forall>q. c = Fin q \<longrightarrow>
               (\<exists>n. nearest_even (q * 100) n \<and>
                  map_of (body r) ''price'' = Some (JNumber (hundredth q n)))"
  proof (intro allI impI)
    fix q
    assume "c = Fin q"
    with f have "map_of (body r) ''price'' = Some (JNumber (hundredth q (rhe (q * 100))))"
      by (simp add: py_round2_rule)
    with rhe_nearest_even [of "q * 100"]
    show "\<exists>n. nearest_even (q * 100) n \<and>
            map_of (body r) ''price'' = Some (JNumber (hundredth q n))"
      by (intro exI [of _ "rhe (q * 100)"] conjI)
  qed
  have other: "(\<forall>q. c \<noteq> Fin q) \<longrightarrow> map_of (body r) ''price'' = Some (JNumber c)"
    using f by (simp add: py_round2_other)
  from i finite other
  have "\<exists>info c. get_info pr stock = Inr info \<and>
            info ''regularMarketPrice'' = Some c \<and>
            (\<forall>q. c = Fin q \<longrightarrow>
               (\<exists>n. nearest_even (q * 100) n \<and>
                  map_of (body r) ''price'' = Some (JNumber (hundredth q n)))) \<and>
            ((\<forall>q. c \<noteq> Fin q) \<longrightarrow> map_of (body r) ''price'' = Some (JNumber c))"
    by (intro exI [of _ info] exI [of _ c] conjI)
  with s k show ?thesis
    by (intro conjI)
qed

theorem success_fields_witness:
  "\<exists>r. fst (stock_api (stub_provider fine_quote aapl_closes) ''AAPL'') = Inr r \<and>
       r \<noteq> invalid_ticker \<and> status r = 200 \<and>
       map fst (body r) =
         [''stock'', ''price'', ''percent'', ''percent_1mo'', ''percent_6mo'', ''percent_1y''] \<and>
       map_of (body r) ''price'' = Some (JNumber (to_double (15313 / 100)))"
proof -
  let ?pr = "stub_provider fine_quote aapl_closes"
  let ?q = "2693856264609333 / 17592186044416 :: rat"
  have g: "get_info ?pr ''AAPL'' = Inr fine_quote"
    by (simp add: stub_provider_def)
  have p: "fine_quote ''previousClose'' = Some (Fin 150)"
    and c: "fine_quote ''regularMarketPrice'' = Some (Fin ?q)"
    by (simp_all add: fine_quote_def)
  have h: "history ?pr ''AAPL'' ''1mo'' = Inr [Fin 140, Fin 146, Fin 153]"
    "history ?pr ''AAPL'' ''6mo'' = Inr [Fin 120, Fin 131, Fin 153]"
    "history ?pr ''AAPL'' ''1y'' = Inr [Fin 100, Fin 90, Fin 153]"
    by (simp_all add: stub_provider_def aapl_closes_def closes3_def)
  from stock_api_ok [OF g p c not_zero_150 h(1) _ h(2) _ h(3)]
  obtain r where r: "fst (stock_api ?pr ''AAPL'') = Inr r" and s: "body r \<noteq> body invalid_ticker"
    by (simp add: invalid_ticker_def)
  from s have ne: "r \<noteq> invalid_ticker" by auto
  note t = success_fields [OF r ne]
  from t [THEN conjunct2, THEN conjunct2]
  obtain info c' where i: "get_info ?pr ''AAPL'' = Inr info"
    and c': "info ''regularMarketPrice'' = Some c'"
    and rule: "\<forall>q. c' = Fin q \<longrightarrow>
               (\<exists>n. nearest_even (q * 100) n \<and>
                  map_of (body r) ''price'' = Some (JNumber (hundredth q n)))"
    by (elim exE conjE)
  from i g c c' have "c' = Fin ?q"
    by simp
  from rule [THEN spec, THEN mp, OF this]
  obtain n where n: "nearest_even (?q * 100) n"
    and f: "map_of (body r) ''price'' = Some (JNumber (hundredth ?q n))"
    by (elim exE conjE)
  have "nearest_even (?q * 100) 15313"
    by (simp add: nearest_even_def)
  with n have "n = 15313"
    by (rule nearest_even_unique)
  with f have price: "map_of (body r) ''price'' = Some (JNumber (to_double (15313 / 100)))"
    by (simp add: hundredth_def)
  from r ne t [THEN conjunct1] t [THEN conjunct2, THEN conjunct1] price
  show ?thesis
    by (intro exI [of _ r] conjI)
qed




text \<open>
  C6. The outcome of the handler, and the requests it makes, are determined by what the
  provider answers for the ticker: its current info and its series for the three periods.
  Two providers that agree there, whatever they answer elsewhere, give the same result.
\<close>

theorem deterministic:
  assumes "get_info pr stock = get_info pr' stock"
    and "history pr stock ''1mo'' = history pr' stock ''1mo''"
    and "history pr stock ''6mo'' = history pr' stock ''6mo''"
    and "history pr stock ''1y'' = history pr' stock ''1y''"
  shows "stock_api pr stock = stock_api pr' stock"
proof -
  have "\<And>d. d \<in> set [''1mo'', ''6mo'', ''1y''] \<Longrightarrow>
          history pr stock d = history pr' stock d"
    using assms(2-4) by auto
  then have "\<And>calls. calulcate_stock_changes pr stock calls =
               calulcate_stock_changes pr' stock calls"
    unfolding calulcate_stock_changes_def by (rule changes_loop_cong)
  then have same: "calulcate_stock_changes pr stock = calulcate_stock_changes pr' stock"
    by (rule ext)
  show ?thesis
    unfolding stock_api_def assms(1) same by (rule refl)
qed

theorem deterministic_witness:
  "get_info (stub_provider (quote 150 153) aapl_closes) ''MSFT'' \<noteq> get_info aapl_only ''MSFT'' \<and>
   get_info (stub_provider (quote 150 153) aapl_closes) ''AAPL'' = get_info aapl_only ''AAPL'' \<and>
   stock_api (stub_provider (quote 150 153) aapl_closes) ''AAPL'' = stock_api aapl_only ''AAPL''"
proof -
  let ?pr = "stub_provider (quote 150 153) aapl_closes"
  have d: "get_info ?pr ''MSFT'' \<noteq> get_info aapl_only ''MSFT''"
    by (simp add: stub_provider_def aapl_only_def)
  have g: "get_info ?pr ''AAPL'' = get_info aapl_only ''AAPL''"
    by (simp add: stub_provider_def aapl_only_def)
  have h: "history ?pr ''AAPL'' ''1mo'' = history aapl_only ''AAPL'' ''1mo''"
    "history ?pr ''AAPL'' ''6mo'' = history aapl_only ''AAPL'' ''6mo''"
    "history ?pr ''AAPL'' ''1y'' = history aapl_only ''AAPL'' ''1y''"
    by (simp_all add: stub_provider_def aapl_only_def)
  from d g deterministic [OF g h] show ?thesis
    by (intro conjI)
qed

text \<open>
  C7. When the ticker passes the validity check and the series of one of the three periods
  is empty, reading its first or last close raises \<^verbatim>\<open>IndexError\<close> and nothing
  catches it: the handler ends in a fault, never in a response, neither the 400 error nor
  a success record. The fault is that \<^verbatim>\<open>IndexError\<close> whenever the steps before it
  went through: the previous close is there and is not zero, and the provider answered
  each period with a series.
\<close>

theorem empty_series_fault:
  assumes "get_info pr stock = Inr info" and "info ''regularMarketPrice'' = Some c"
    and "d \<in> {''1mo'', ''6mo'', ''1y''}" and "history pr stock d = Inr h" and "h = []"
  shows "iloc h 0 = Inl IndexError \<and> iloc h (- 1) = Inl IndexError \<and>
         (\<exists>f. fst (stock_api pr stock) = Inl f) \<and>
         (\<forall>p h1 h6 hy.
            info ''previousClose'' = Some p \<and> \<not> is_zero p \<and>
            history pr stock ''1mo'' = Inr h1 \<and> history pr stock ''6mo'' = Inr h6 \<and>
            history pr stock ''1y'' = Inr hy \<longrightarrow>
            fst (stock_api pr stock) = Inl IndexError)"
proof -
  have e: "history pr stock d = Inr []"
    using assms(4,5) by simp
  have a: "iloc h 0 = Inl IndexError" "iloc h (- 1) = Inl IndexError"
    by (simp_all add: assms(5) iloc_empty)
  have b: "\<exists>f. fst (stock_api pr stock) = Inl f"
    by (rule stock_api_empty_series [OF assms(1-3) e])
  have c: "\<forall>p h1 h6 hy.
            info ''previousClose'' = Some p \<and> \<not> is_zero p \<and>
            history pr stock ''1mo'' = Inr h1 \<and> history pr stock ''6mo'' = Inr h6 \<and>
            history pr stock ''1y'' = Inr hy \<longrightarrow>
            fst (stock_api pr stock) = Inl IndexError"
    using stock_api_empty_series_IndexError [OF assms(1,2) _ _ assms(3) e] by blast
  from a b c show ?thesis by (intro conjI)
qed

theorem empty_series_fault_witness:
  "history (stub_provider (quote 150 153) gap_closes) ''AAPL'' ''6mo'' = Inr [] \<and>
   fst (stock_api (stub_provider (quote 150 153) gap_closes) ''AAPL'') = Inl IndexError"
proof -
  let ?pr = "stub_provider (quote 150 153) gap_closes"
  have g: "get_info ?pr ''AAPL'' = Inr (quote 150 153)"
    by (simp add: stub_provider_def)
  have p: "quote 150 153 ''previousClose'' = Some (Fin 150)"
    and c: "quote 150 153 ''regularMarketPrice'' = Some (Fin 153)"
    by (simp_all add: quote_def)
  have h: "history ?pr ''AAPL'' ''1mo'' = Inr [Fin 140, Fin 153]"
    "history ?pr ''AAPL'' ''6mo'' = Inr []"
    "history ?pr ''AAPL'' ''1y'' = Inr [Fin 100, Fin 153]"
    by (simp_all add: stub_provider_def gap_closes_def closes3_def)
  have m: "''6mo'' \<in> {''1mo'', ''6mo'', ''1y''}"
    by simp
  note t = empty_series_fault [OF g c m h(2) refl]
  have before: "quote 150 153 ''previousClose'' = Some (Fin 150) \<and> \<not> is_zero (Fin 150) \<and>
      history ?pr ''AAPL'' ''1mo'' = Inr [Fin 140, Fin 153] \<and>
      history ?pr ''AAPL'' ''6mo'' = Inr [] \<and>
      history ?pr ''AAPL'' ''1y'' = Inr [Fin 100, Fin 153]"
    using p not_zero_150 h by (intro conjI)
  have "fst (stock_api ?pr ''AAPL'') = Inl IndexError"
    by (rule t [THEN conjunct2, THEN conjunct2, THEN conjunct2, THEN spec, THEN spec,
          THEN spec, THEN spec, THEN mp, OF before])
  with h(2) show ?thesis
    by (intro conjI)
qed


text \<open>
  C8. The scenario of the ticker \<^verbatim>\<open>AAPL\<close>: previous close 150.00, current price 153.00,
  closes from 140.00 to 153.00 over one month, from 120.00 to 153.00 over six months and
  from 100.00 to 153.00 over one year, whatever the closes in between. The response is
  \<^verbatim>\<open>{stock: "AAPL", price: 153.0, percent: 2.0, percent_1mo: 9.29, percent_6mo: 27.5,
  percent_1y: 53.0}\<close> with status 200, where 9.29 is the binary64 number nearest to
  929/100.
\<close>

theorem aapl_scenario:
  assumes "get_info pr ''AAPL'' = Inr info"
    and "info ''previousClose'' = Some (Fin 150)"
    and "info ''regularMarketPrice'' = Some (Fin 153)"
    and "history pr ''AAPL'' ''1mo'' = Inr (Fin 140 # mid1 @ [Fin 153])"
    and "history pr ''AAPL'' ''6mo'' = Inr (Fin 120 # mid6 @ [Fin 153])"
    and "history pr ''AAPL'' ''1y'' = Inr (Fin 100 # midy @ [Fin 153])"
  shows "fst (stock_api pr ''AAPL'') =
           Inr \<lparr>status = 200,
                body = [(''stock'', JString ''AAPL''),
                        (''price'', JNumber (Fin 153)),
                        (''percent'', JNumber (Fin 2)),
                        (''percent_1mo'', JNumber (to_double (929 / 100))),
                        (''percent_6mo'', JNumber (Fin (55 / 2))),
                        (''percent_1y'', JNumber (Fin 53))]\<rparr>"
proof -
  have "fst (stock_api pr ''AAPL'') =
          Inr (success ''AAPL'' (Fin 153) (Fin 150) (Fin 140 # mid1 @ [Fin 153])
                 (Fin 120 # mid6 @ [Fin 153]) (Fin 100 # midy @ [Fin 153]))"
    using stock_api_ok [OF assms(1-3) not_zero_150 assms(4) _ assms(5) _ assms(6)]
    by simp
  then show ?thesis
    by (simp add: aapl_price aapl_percent aapl_percent_1mo aapl_percent_6mo aapl_percent_1y)
qed

theorem aapl_scenario_witness:
  "fst (stock_api (stub_provider (quote 150 153) aapl_closes) ''AAPL'') =
     Inr \<lparr>status = 200,
          body = [(''stock'', JString ''AAPL''),
                  (''price'', JNumber (Fin 153)),
                  (''percent'', JNumber (Fin 2)),
                  (''percent_1mo'', JNumber (to_double (929 / 100))),
                  (''percent_6mo'', JNumber (Fin (55 / 2))),
                  (''percent_1y'', JNumber (Fin 53))]\<rparr>"
proof -
  let ?pr = "stub_provider (quote 150 153) aapl_closes"
  have g: "get_info ?pr ''AAPL'' = Inr (quote 150 153)"
    by (simp add: stub_provider_def)
  have p: "quote 150 153 ''previousClose'' = Some (Fin 150)"
    and c: "quote 150 153 ''regularMarketPrice'' = Some (Fin 153)"
    by (simp_all add: quote_def)
  have h: "history ?pr ''AAPL'' ''1mo'' = Inr (Fin 140 # [Fin 146] @ [Fin 153])"
    "history ?pr ''AAPL'' ''6mo'' = Inr (Fin 120 # [Fin 131] @ [Fin 153])"
    "history ?pr ''AAPL'' ''1y'' = Inr (Fin 100 # [Fin 90] @ [Fin 153])"
    by (simp_all add: stub_provider_def aapl_closes_def closes3_def)
  show ?thesis
    by (rule aapl_scenario [OF g p c h])
qed

text \<open>
  C9. The validity check looks at \<^verbatim>\<open>regularMarketPrice\<close> only. When the current info
  has that key and lacks \<^verbatim>\<open>previousClose\<close>, the handler does not answer with the 400
  error: reading \<^verbatim>\<open>info["previousClose"]\<close> raises \<^verbatim>\<open>KeyError\<close>, which nothing
  catches, before any history is fetched.
\<close>

theorem missing_previous_close:
  assumes "get_info pr stock = Inr info"
    and "info ''regularMarketPrice'' = Some c" and "info ''previousClose'' = None"
  shows "stock_api pr stock = (Inl (KeyError ''previousClose''), [GetInfo stock])"
  using assms by (simp add: stock_api_def getitem_def)

theorem missing_previous_close_witness:
  "price_only ''previousClose'' = None \<and>
   stock_api (stub_provider price_only aapl_closes) ''AAPL'' =
     (Inl (KeyError ''previousClose''), [GetInfo ''AAPL''])"
proof -
  have g: "get_info (stub_provider price_only aapl_closes) ''AAPL'' = Inr price_only"
    by (simp add: stub_provider_def)
  have c: "price_only ''regularMarketPrice'' = Some (Fin 153)"
    and p: "price_only ''previousClose'' = None"
    by (simp_all add: price_only_def)
  from p missing_previous_close [OF g c p] show ?thesis
    by (intro conjI)
qed

text \<open>
  C10. In a response other than the error, the field \<^verbatim>\<open>stock\<close> is the path parameter
  as the handler received it, character for character.
\<close>

theorem stock_echoed:
  assumes "fst (stock_api pr stock) = Inr r" and "r \<noteq> invalid_ticker"
  shows "map_of (body r) ''stock'' = Some (JString stock)"
proof -
  from stock_api_Inr [OF assms(1)] assms(2)
  obtain c p h1 h6 hy where "r = success stock c p h1 h6 hy"
    by auto
  then show ?thesis by simp
qed

theorem stock_echoed_witness:
  "\<exists>r. fst (stock_api (stub_provider (quote 150 153) aapl_closes) ''aApl'') = Inr r \<and>
       r \<noteq> invalid_ticker \<and> map_of (body r) ''stock'' = Some (JString ''aApl'')"
proof -
  let ?pr = "stub_provider (quote 150 153) aapl_closes"
  have g: "get_info ?pr ''aApl'' = Inr (quote 150 153)"
    by (simp add: stub_provider_def)
  have p: "quote 150 153 ''previousClose'' = Some (Fin 150)"
    and c: "quote 150 153 ''regularMarketPrice'' = Some (Fin 153)"
    by (simp_all add: quote_def)
  have h: "history ?pr ''aApl'' ''1mo'' = Inr [Fin 140, Fin 146, Fin 153]"
    "history ?pr ''aApl'' ''6mo'' = Inr [Fin 120, Fin 131, Fin 153]"
    "history ?pr ''aApl'' ''1y'' = Inr [Fin 100, Fin 90, Fin 153]"
    by (simp_all add: stub_provider_def aapl_closes_def closes3_def)
  from stock_api_ok [OF g p c not_zero_150 h(1) _ h(2) _ h(3)]
  obtain r where r: "fst (stock_api ?pr ''aApl'') = Inr r" and s: "body r \<noteq> body invalid_ticker"
    by (simp add: invalid_ticker_def)
  from s have ne: "r \<noteq> invalid_ticker" by auto
  from stock_echoed [OF r ne] r ne show ?thesis
    by (intro exI [of _ r] conjI)
qed

end
